theory Spec2Isabelle
  imports Complex_Main "HOL-Library.Sublist" "HOL-Library.AList"
begin

section \<open>Values, strings and the log\<close>

text \<open>
  The pipeline of \<^verbatim>\<open>etl_pipeline.py\<close> works on pandas data frames read from CSV files.
  A cell of such a frame is missing (\<^verbatim>\<open>NaN\<close>; Python's \<^verbatim>\<open>None\<close> is the same missing
  value to every pandas operation used here), a text or a number. Numbers are exact
  rationals: the rounding of binary floating point is outside the model. Strings are
  ASCII: the functions below leave every other character unchanged.
\<close>

datatype cell = NaN | Str string | Num rat

datatype level = WARNING | ERROR

type_synonym log_entry = "level \<times> string"

text \<open>
  Only the records the code writes at the levels WARNING and ERROR are kept, each with the
  fixed head of its message; records at level INFO decide nothing.
\<close>

datatype py_error = KeyError string | AttributeError | TypeError

definition isna :: "cell \<Rightarrow> bool" where
  "isna v = (v = NaN)"

definition is_Str :: "cell \<Rightarrow> bool" where
  "is_Str v = (case v of Str s \<Rightarrow> True | _ \<Rightarrow> False)"

subsection \<open>Python's string methods\<close>

definition ascii_uppercase :: string where
  "ascii_uppercase = ''ABCDEFGHIJKLMNOPQRSTUVWXYZ''"

definition ascii_lowercase :: string where
  "ascii_lowercase = ''abcdefghijklmnopqrstuvwxyz''"

text \<open>\<^verbatim>\<open>str.isspace\<close> on one character: tab to carriage return, the four separators
  \<^verbatim>\<open>\x1c\<close> to \<^verbatim>\<open>\x1f\<close>, and the blank.\<close>

definition isspace :: "char \<Rightarrow> bool" where
  "isspace c = (c \<in> set [CHR 0x09, CHR 0x0A, CHR 0x0B, CHR 0x0C, CHR 0x0D,
                           CHR 0x1C, CHR 0x1D, CHR 0x1E, CHR 0x1F, CHR 0x20])"

definition lower_char :: "char \<Rightarrow> char" where
  "lower_char c = (case map_of (zip ascii_uppercase ascii_lowercase) c of
                     Some d \<Rightarrow> d | None \<Rightarrow> c)"

definition upper_char :: "char \<Rightarrow> char" where
  "upper_char c = (case map_of (zip ascii_lowercase ascii_uppercase) c of
                     Some d \<Rightarrow> d | None \<Rightarrow> c)"

definition iscased :: "char \<Rightarrow> bool" where
  "iscased c = (c \<in> set ascii_uppercase \<or> c \<in> set ascii_lowercase)"

definition py_strip :: "string \<Rightarrow> string" where
  "py_strip s = rev (dropWhile isspace (rev (dropWhile isspace s)))"

definition py_lower :: "string \<Rightarrow> string" where
  "py_lower s = map lower_char s"

text \<open>\<^verbatim>\<open>str.title\<close>: a letter that follows a letter is put in lower case, every other
  letter in upper case.\<close>

fun title_from :: "bool \<Rightarrow> string \<Rightarrow> string" where
  "title_from previous_is_cased [] = []"
| "title_from previous_is_cased (c # cs) =
     (if previous_is_cased then lower_char c else upper_char c) # title_from (iscased c) cs"

definition py_title :: "string \<Rightarrow> string" where
  "py_title s = title_from False s"

text \<open>\<^verbatim>\<open>sub in s\<close> on strings.\<close>

fun py_in :: "string \<Rightarrow> string \<Rightarrow> bool" where
  "py_in sub [] = (sub = [])"
| "py_in sub (c # cs) = (prefix sub (c # cs) \<or> py_in sub cs)"

subsection \<open>Decimal digits\<close>

definition digits :: string where
  "digits = ''0123456789''"

definition nonzero_digits :: string where
  "nonzero_digits = ''123456789''"

definition digit_val :: "char \<Rightarrow> nat" where
  "digit_val c = (case map_of (zip digits [0, 1, 2, 3, 4, 5, 6, 7, 8, 9]) c of
                    Some n \<Rightarrow> n | None \<Rightarrow> 0)"

definition digit_char :: "nat \<Rightarrow> char" where
  "digit_char n = digits ! (n mod 10)"

fun str_nat :: "nat \<Rightarrow> string" where
  "str_nat n = (if n < 10 then [digit_char n] else str_nat (n div 10) @ [digit_char n])"

declare str_nat.simps [simp del]

section \<open>Field normalisers\<close>

subsection \<open>\<^verbatim>\<open>strip_id_prefix\<close>, \<^verbatim>\<open>strip_spaces\<close>\<close>

text \<open>
  \<^verbatim>\<open>strip_id_prefix\<close> returns \<^verbatim>\<open>str(val)[1:]\<close>, and NaN for a missing value. Python's
  rendering of a number as text is a parameter. The handler of the function cannot be
  reached from a cell.
\<close>

definition strip_id_prefix :: "(rat \<Rightarrow> string) \<Rightarrow> cell \<Rightarrow> cell" where
  "strip_id_prefix py_str val =
     (case val of
        NaN \<Rightarrow> NaN
      | Str s \<Rightarrow> Str (drop 1 s)
      | Num x \<Rightarrow> Str (drop 1 (py_str x)))"

definition strip_spaces :: "cell \<Rightarrow> cell" where
  "strip_spaces val = (case val of Str s \<Rightarrow> Str (py_strip s) | _ \<Rightarrow> val)"

subsection \<open>\<^verbatim>\<open>format_phone_number\<close>\<close>

text \<open>
  The library \<^verbatim>\<open>phonenumbers\<close> is a parameter: \<open>parse\<close> gives the country code and the
  national number, or nothing where the library raises; \<open>is_valid_number\<close> is its
  validity test.
\<close>

definition format_phone_number ::
  "(cell \<Rightarrow> (nat \<times> nat) option) \<Rightarrow> (nat \<times> nat \<Rightarrow> bool) \<Rightarrow> cell \<Rightarrow> cell \<times> log_entry list" where
  "format_phone_number parse is_valid_number phone =
     (case parse phone of
        None \<Rightarrow> (NaN, [(ERROR, ''Error formatting phone number'')])
      | Some (cc, national_number) \<Rightarrow>
          if is_valid_number (cc, national_number)
          then (let national = str_nat national_number
                in (Str (''+'' @ str_nat cc @ ''-'' @ drop (length national - 10) national), []))
          else (NaN, [(WARNING, ''Invalid phone number'')]))"

subsection \<open>\<^verbatim>\<open>normalize_category_name\<close>\<close>

text \<open>
  A missing value gives \<^verbatim>\<open>None\<close>. On a number \<^verbatim>\<open>cat.strip()\<close> raises AttributeError,
  which the handler logs and turns into \<^verbatim>\<open>None\<close>.
\<close>

definition normalize_category_name :: "cell \<Rightarrow> cell \<times> log_entry list" where
  "normalize_category_name cat =
     (case cat of
        NaN \<Rightarrow> (NaN, [])
      | Num x \<Rightarrow> (NaN, [(ERROR, ''Error standardizing category'')])
      | Str s \<Rightarrow>
          (let cat = py_lower (py_strip s)
           in if py_in ''electronic'' cat then (Str ''Electronics'', [])
              else if py_in ''fashion'' cat then (Str ''Fashion'', [])
              else if py_in ''grocer'' cat then (Str ''Groceries'', [])
              else (Str (py_title cat), [])))"

subsection \<open>\<^verbatim>\<open>normalize_date_format\<close>\<close>

text \<open>
  \<^verbatim>\<open>datetime.strptime\<close> turns a format into a regular expression, one group per directive:
  \<^verbatim>\<open>%Y\<close> is \<^verbatim>\<open>\d\d\d\d\<close>, \<^verbatim>\<open>%m\<close> is \<^verbatim>\<open>1[0-2]|0[1-9]|[1-9]\<close>, \<^verbatim>\<open>%d\<close> is
  \<^verbatim>\<open>3[0-1]|[1-2]\d|0[1-9]|[1-9]| [1-9]\<close>. It matches the expression at the start of the
  text, raises when text is left over, and raises when the fields are no date of the
  calendar. In the five formats of the code a directive is followed by a separator or by
  the end of the format, so the first alternative that matches is the only one that can
  lead to a match, and the groups are read from left to right without backtracking.
\<close>

datatype directive = PctY | Pctm | Pctd | Lit char

type_synonym date = "nat \<times> nat \<times> nat"

fun year_re :: "string \<Rightarrow> (nat \<times> string) option" where
  "year_re (a # b # c # d # rest) =
     (if a \<in> set digits \<and> b \<in> set digits \<and> c \<in> set digits \<and> d \<in> set digits
      then Some (1000 * digit_val a + 100 * digit_val b + 10 * digit_val c + digit_val d, rest)
      else None)"
| "year_re s = None"

fun month_re :: "string \<Rightarrow> (nat \<times> string) option" where
  "month_re [] = None"
| "month_re [a] = (if a \<in> set nonzero_digits then Some (digit_val a, []) else None)"
| "month_re (a # b # rest) =
     (if a = CHR ''1'' \<and> b \<in> set ''012'' then Some (10 + digit_val b, rest)
      else if a = CHR ''0'' \<and> b \<in> set nonzero_digits then Some (digit_val b, rest)
      else if a \<in> set nonzero_digits then Some (digit_val a, b # rest)
      else None)"

fun day_re :: "string \<Rightarrow> (nat \<times> string) option" where
  "day_re [] = None"
| "day_re [a] = (if a \<in> set nonzero_digits then Some (digit_val a, []) else None)"
| "day_re (a # b # rest) =
     (if a = CHR ''3'' \<and> b \<in> set ''01'' then Some (30 + digit_val b, rest)
      else if a \<in> set ''12'' \<and> b \<in> set digits then Some (10 * digit_val a + digit_val b, rest)
      else if a = CHR ''0'' \<and> b \<in> set nonzero_digits then Some (digit_val b, rest)
      else if a \<in> set nonzero_digits then Some (digit_val a, b # rest)
      else if a = CHR '' '' \<and> b \<in> set nonzero_digits then Some (digit_val b, rest)
      else None)"

fun regex_match :: "directive list \<Rightarrow> string \<Rightarrow> date \<Rightarrow> (date \<times> string) option" where
  "regex_match [] s found = Some (found, s)"
| "regex_match (Lit c # fmt) s found =
     (case s of [] \<Rightarrow> None | x # xs \<Rightarrow> if x = c then regex_match fmt xs found else None)"
| "regex_match (PctY # fmt) s (y, m, d) =
     (case year_re s of None \<Rightarrow> None | Some (v, rest) \<Rightarrow> regex_match fmt rest (v, m, d))"
| "regex_match (Pctm # fmt) s (y, m, d) =
     (case month_re s of None \<Rightarrow> None | Some (v, rest) \<Rightarrow> regex_match fmt rest (y, v, d))"
| "regex_match (Pctd # fmt) s (y, m, d) =
     (case day_re s of None \<Rightarrow> None | Some (v, rest) \<Rightarrow> regex_match fmt rest (y, m, v))"

definition is_leap :: "nat \<Rightarrow> bool" where
  "is_leap y = (y mod 4 = 0 \<and> (y mod 100 \<noteq> 0 \<or> y mod 400 = 0))"

definition days_in_month :: "nat \<Rightarrow> nat \<Rightarrow> nat" where
  "days_in_month y m =
     (if m = 2 then (if is_leap y then 29 else 28)
      else if m \<in> set [4, 6, 9, 11] then 30 else 31)"

definition valid_date :: "date \<Rightarrow> bool" where
  "valid_date dt =
     (case dt of (y, m, d) \<Rightarrow>
        1 \<le> y \<and> y \<le> 9999 \<and> 1 \<le> m \<and> m \<le> 12 \<and> 1 \<le> d \<and> d \<le> days_in_month y m)"

text \<open>\<^verbatim>\<open>datetime.strptime(date_str, fmt)\<close>; \<open>None\<close> stands for the ValueError. The fields not
  named by a format start at 1900-01-01.\<close>

definition strptime :: "string \<Rightarrow> directive list \<Rightarrow> date option" where
  "strptime date_string fmt =
     (case regex_match fmt date_string (1900, 1, 1) of
        None \<Rightarrow> None
      | Some (dt, rest) \<Rightarrow> if rest \<noteq> [] then None else if valid_date dt then Some dt else None)"

text \<open>\<^verbatim>\<open>strftime('%Y-%m-%d')\<close>, the year on four digits (the C library of some platforms
  prints a year below 1000 without its leading zeros; the model pads).\<close>

definition strftime :: "date \<Rightarrow> string" where
  "strftime dt =
     (case dt of (y, m, d) \<Rightarrow>
        [digit_char (y div 1000), digit_char (y div 100), digit_char (y div 10), digit_char y]
        @ ''-'' @ [digit_char (m div 10), digit_char m]
        @ ''-'' @ [digit_char (d div 10), digit_char d])"

text \<open>The tuple of formats of the loop:
  \<^verbatim>\<open>('%Y-%m-%d', '%d/%m/%Y', '%m-%d-%Y', '%d-%m-%Y', '%m/%d/%Y')\<close>.\<close>

definition date_formats :: "directive list list" where
  "date_formats =
     [[PctY, Lit CHR ''-'', Pctm, Lit CHR ''-'', Pctd],
      [Pctd, Lit CHR ''/'', Pctm, Lit CHR ''/'', PctY],
      [Pctm, Lit CHR ''-'', Pctd, Lit CHR ''-'', PctY],
      [Pctd, Lit CHR ''-'', Pctm, Lit CHR ''-'', PctY],
      [Pctm, Lit CHR ''/'', Pctd, Lit CHR ''/'', PctY]]"

text \<open>The loop over the formats: the first format that parses returns, a format that raises
  is skipped. On a value that is no text \<^verbatim>\<open>strptime\<close> raises TypeError for every format.\<close>

fun try_formats :: "directive list list \<Rightarrow> cell \<Rightarrow> date option" where
  "try_formats [] date_str = None"
| "try_formats (fmt # fmts) date_str =
     (case (case date_str of Str s \<Rightarrow> strptime s fmt | _ \<Rightarrow> None) of
        Some dt \<Rightarrow> Some dt
      | None \<Rightarrow> try_formats fmts date_str)"

text \<open>
  The fallback \<^verbatim>\<open>pd.to_datetime(date_str, errors='coerce', dayfirst=False)\<close> is a parameter:
  it gives a date, or nothing for \<^verbatim>\<open>NaT\<close>, whose \<^verbatim>\<open>strftime\<close> raises; the handler logs
  that and returns NaN.
\<close>

definition normalize_date_format :: "(cell \<Rightarrow> date option) \<Rightarrow> cell \<Rightarrow> cell \<times> log_entry list" where
  "normalize_date_format to_datetime date_str =
     (case try_formats date_formats date_str of
        Some dt \<Rightarrow> (Str (strftime dt), [])
      | None \<Rightarrow>
          (case to_datetime date_str of
             Some dt \<Rightarrow> (Str (strftime dt), [])
           | None \<Rightarrow> (NaN, [(ERROR, ''Error parsing date'')])))"

section \<open>Data frames\<close>

text \<open>
  A data frame is its list of column names and its rows in order, each row with the index
  label it carries and its cells by column name. \<^verbatim>\<open>read_csv\<close> labels the rows
  \<open>0, 1, 2, \<dots>\<close>; dropping rows keeps the labels of the rows that stay.
  \<^verbatim>\<open>pd.DataFrame()\<close> is the frame with no column and no row.
\<close>

type_synonym row = "string \<Rightarrow> cell"

record frame =
  columns :: "string list"
  rows :: "(nat \<times> row) list"

definition empty_frame :: frame where
  "empty_frame = \<lparr>columns = [], rows = []\<rparr>"

text \<open>\<^verbatim>\<open>df.empty\<close>: an axis of length 0.\<close>

definition df_empty :: "frame \<Rightarrow> bool" where
  "df_empty df = (columns df = [] \<or> rows df = [])"

definition range_index :: "frame \<Rightarrow> bool" where
  "range_index df = (map fst (rows df) = [0..<length (rows df)])"

definition column_values :: "string \<Rightarrow> frame \<Rightarrow> cell list" where
  "column_values c df = map (\<lambda>(i, r). r c) (rows df)"

text \<open>\<^verbatim>\<open>df.values.tolist()\<close>: the rows as lists of cells, in the order of the columns.\<close>

definition values_tolist :: "frame \<Rightarrow> cell list list" where
  "values_tolist df = map (\<lambda>(i, r). map r (columns df)) (rows df)"

text \<open>\<^verbatim>\<open>df[c] = ...\<close>: an existing column is replaced in place, a new one is added last.\<close>

definition set_col :: "string \<Rightarrow> (nat \<Rightarrow> row \<Rightarrow> cell) \<Rightarrow> frame \<Rightarrow> frame" where
  "set_col c f df =
     \<lparr>columns = (if c \<in> set (columns df) then columns df else columns df @ [c]),
      rows = map (\<lambda>(i, r). (i, r(c := f i r))) (rows df)\<rparr>"

text \<open>
  Results of steps that may raise: the exception or the value, with the records logged
  on the way.
\<close>

type_synonym 'a attempt = "(py_error + 'a) \<times> log_entry list"

definition then_do :: "'a attempt \<Rightarrow> ('a \<Rightarrow> 'b attempt) \<Rightarrow> 'b attempt" where
  "then_do m f =
     (case m of
        (Inl e, l) \<Rightarrow> (Inl e, l)
      | (Inr x, l) \<Rightarrow> (case f x of (y, l') \<Rightarrow> (y, l @ l')))"

definition quiet :: "py_error + 'a \<Rightarrow> 'a attempt" where
  "quiet x = (x, [])"

definition handled :: "'a \<times> log_entry list \<Rightarrow> 'a attempt" where
  "handled x = (Inr (fst x), snd x)"

text \<open>\<^verbatim>\<open>df[c] = df[c].apply(f)\<close>; \<^verbatim>\<open>df[c]\<close> raises KeyError for a column that is absent.\<close>

definition series_apply :: "string \<Rightarrow> (cell \<Rightarrow> cell \<times> log_entry list) \<Rightarrow> frame \<Rightarrow> frame attempt" where
  "series_apply c f df =
     (if c \<notin> set (columns df) then (Inl (KeyError c), [])
      else (Inr (set_col c (\<lambda>i r. fst (f (r c))) df),
            concat (map (\<lambda>v. snd (f v)) (column_values c df))))"

text \<open>\<^verbatim>\<open>drop_duplicates\<close> keeps the first row of each key and the labels of the rows kept;
  two missing values count as equal.\<close>

fun keep_first :: "('a \<Rightarrow> 'k) \<Rightarrow> 'k list \<Rightarrow> 'a list \<Rightarrow> 'a list" where
  "keep_first key seen [] = []"
| "keep_first key seen (x # xs) =
     (if key x \<in> set seen then keep_first key seen xs
      else x # keep_first key (key x # seen) xs)"

definition row_key :: "string list \<Rightarrow> nat \<times> row \<Rightarrow> cell list" where
  "row_key cs ir = map (snd ir) cs"

definition drop_duplicates :: "frame \<Rightarrow> frame" where
  "drop_duplicates df = df\<lparr>rows := keep_first (row_key (columns df)) [] (rows df)\<rparr>"

definition drop_duplicates_subset :: "string list \<Rightarrow> frame \<Rightarrow> py_error + frame" where
  "drop_duplicates_subset cs df =
     (case find (\<lambda>c. c \<notin> set (columns df)) cs of
        Some c \<Rightarrow> Inl (KeyError c)
      | None \<Rightarrow> Inr (df\<lparr>rows := keep_first (row_key cs) [] (rows df)\<rparr>))"

text \<open>\<^verbatim>\<open>dropna()\<close> and \<^verbatim>\<open>dropna(subset=[c])\<close>.\<close>

definition dropna :: "frame \<Rightarrow> frame" where
  "dropna df = df\<lparr>rows := filter (\<lambda>(i, r). list_all (\<lambda>c. \<not> isna (r c)) (columns df)) (rows df)\<rparr>"

definition dropna_subset :: "string \<Rightarrow> frame \<Rightarrow> py_error + frame" where
  "dropna_subset c df =
     (if c \<notin> set (columns df) then Inl (KeyError c)
      else Inr (df\<lparr>rows := filter (\<lambda>(i, r). \<not> isna (r c)) (rows df)\<rparr>))"

text \<open>\<^verbatim>\<open>df[[c1, ..., cn]]\<close>: a new frame of these columns in this order.\<close>

definition restrict_row :: "string list \<Rightarrow> row \<Rightarrow> row" where
  "restrict_row cs r = (\<lambda>c. if c \<in> set cs then r c else NaN)"

definition getitem_list :: "string list \<Rightarrow> frame \<Rightarrow> py_error + frame" where
  "getitem_list cs df =
     (case find (\<lambda>c. c \<notin> set (columns df)) cs of
        Some c \<Rightarrow> Inl (KeyError c)
      | None \<Rightarrow> Inr \<lparr>columns = cs, rows = map (\<lambda>(i, r). (i, restrict_row cs r)) (rows df)\<rparr>)"

text \<open>\<^verbatim>\<open>rename(columns={old: new})\<close>; the entries of the dictionaries of the code that map a
  name to itself are left out.\<close>

definition rename_row :: "string \<Rightarrow> string \<Rightarrow> row \<Rightarrow> row" where
  "rename_row old new r = (\<lambda>c. if c = new then r old else if c = old then NaN else r c)"

definition rename :: "string \<Rightarrow> string \<Rightarrow> frame \<Rightarrow> frame" where
  "rename old new df =
     \<lparr>columns = map (\<lambda>c. if c = old then new else c) (columns df),
      rows = map (\<lambda>(i, r). (i, rename_row old new r)) (rows df)\<rparr>"

text \<open>
  The dtype \<^verbatim>\<open>object\<close>, as \<^verbatim>\<open>read_csv\<close> and \<^verbatim>\<open>Series.apply\<close> infer it from the cells: a column
  that holds a text, or a column of a frame without rows.
\<close>

definition is_object_col :: "string \<Rightarrow> frame \<Rightarrow> bool" where
  "is_object_col c df = (rows df = [] \<or> list_ex is_Str (column_values c df))"

subsection \<open>\<^verbatim>\<open>trim_string_columns\<close>\<close>

text \<open>
  The function selects the columns of dtype object and replaces each by its
  \<^verbatim>\<open>.str.strip()\<close>, which strips a text and gives NaN for any other cell. Its handler
  cannot be reached from a frame of cells.
\<close>

definition str_strip :: "cell \<Rightarrow> cell" where
  "str_strip v = (case v of Str s \<Rightarrow> Str (py_strip s) | _ \<Rightarrow> NaN)"

definition object_columns :: "frame \<Rightarrow> string list" where
  "object_columns df = filter (\<lambda>c. is_object_col c df) (columns df)"

definition map_row :: "(string \<Rightarrow> cell \<Rightarrow> cell) \<Rightarrow> row \<Rightarrow> row" where
  "map_row g r = (\<lambda>c. g c (r c))"

definition strip_columns :: "string list \<Rightarrow> frame \<Rightarrow> frame" where
  "strip_columns str_cols df =
     df\<lparr>rows := map (\<lambda>(i, r). (i, map_row (\<lambda>c v. if c \<in> set str_cols then str_strip v else v) r))
                     (rows df)\<rparr>"

definition trim_string_columns :: "frame \<Rightarrow> frame" where
  "trim_string_columns df = strip_columns (object_columns df) df"

subsection \<open>\<^verbatim>\<open>impute_product_data_median\<close>\<close>

text \<open>\<^verbatim>\<open>Series.median()\<close> skips the missing values; of an even number of values it is the
  mean of the two in the middle, of no value it is NaN. On a text it raises.\<close>

definition numbers :: "cell list \<Rightarrow> rat list" where
  "numbers vs = List.map_filter (\<lambda>v. case v of Num x \<Rightarrow> Some x | _ \<Rightarrow> None) vs"

definition median :: "cell list \<Rightarrow> py_error + cell" where
  "median vs =
     (if list_ex is_Str vs then Inl TypeError
      else (let xs = sort (numbers vs); n = length xs
            in Inr (if n = 0 then NaN
                    else if odd n then Num (xs ! (n div 2))
                    else Num ((xs ! (n div 2 - 1) + xs ! (n div 2)) / 2))))"

definition fillna :: "cell \<Rightarrow> cell \<Rightarrow> cell" where
  "fillna value v = (if isna v then value else v)"

definition fill_median :: "string \<Rightarrow> frame \<Rightarrow> py_error + frame" where
  "fill_median c df =
     (if c \<notin> set (columns df) then Inl (KeyError c)
      else (case median (column_values c df) of
              Inl e \<Rightarrow> Inl e
            | Inr m \<Rightarrow> Inr (set_col c (\<lambda>i r. fillna m (r c)) df)))"

text \<open>The two assignments are made in place one after the other: when the second raises,
  the first stays. The handler logs and returns the frame.\<close>

definition impute_product_data_median :: "frame \<Rightarrow> frame \<times> log_entry list" where
  "impute_product_data_median df =
     (case fill_median ''price'' df of
        Inl e \<Rightarrow> (df, [(ERROR, ''Error filling missing product data'')])
      | Inr df1 \<Rightarrow>
          (case fill_median ''stock_quantity'' df1 of
             Inl e \<Rightarrow> (df1, [(ERROR, ''Error filling missing product data'')])
           | Inr df2 \<Rightarrow> (df2, [])))"

subsection \<open>\<^verbatim>\<open>impute_missing_email\<close>\<close>

text \<open>An f-string renders a text as it is and NaN as \<^verbatim>\<open>nan\<close>.\<close>

definition format_cell :: "(rat \<Rightarrow> string) \<Rightarrow> cell \<Rightarrow> string" where
  "format_cell py_str v = (case v of NaN \<Rightarrow> ''nan'' | Str s \<Rightarrow> s | Num x \<Rightarrow> py_str x)"

definition email_missing :: "cell \<Rightarrow> bool" where
  "email_missing v = (isna v \<or> v = Str [])"

text \<open>
  \<^verbatim>\<open>DataFrame.apply(..., axis=1)\<close> calls the function on each row; the function reads
  \<^verbatim>\<open>row['email']\<close>, and \<^verbatim>\<open>row['customer_id']\<close> where the email is missing or empty. A
  KeyError there reaches the handler, which logs and returns the frame as it was. On a
  frame without rows pandas calls the function once on a row of missing values and
  swallows what it raises: with both columns the assignment then sets an empty column; in
  the other case it assigns a copy of the frame, which raises unless the frame has exactly
  one column, which becomes the email column.
\<close>

definition impute_missing_email :: "(rat \<Rightarrow> string) \<Rightarrow> frame \<Rightarrow> frame \<times> log_entry list" where
  "impute_missing_email py_str customers_df =
     (if rows customers_df = []
      then (if ''email'' \<in> set (columns customers_df) \<and> ''customer_id'' \<in> set (columns customers_df)
            then (customers_df, [])
            else if length (columns customers_df) = 1
            then (set_col ''email'' (\<lambda>i r. NaN) customers_df, [])
            else (customers_df, [(ERROR, ''Error filling missing emails'')]))
      else if ''email'' \<notin> set (columns customers_df)
              \<or> (''customer_id'' \<notin> set (columns customers_df)
                  \<and> list_ex email_missing (column_values ''email'' customers_df))
      then (customers_df, [(ERROR, ''Error filling missing emails'')])
      else (set_col ''email''
              (\<lambda>i r. if email_missing (r ''email'')
                      then Str (''unknown_email_'' @ format_cell py_str (r ''customer_id''))
                      else r ''email'') customers_df, []))"

subsection \<open>\<^verbatim>\<open>build_quality_report\<close>\<close>

record quality_report =
  file_name_of :: string
  records_processed :: nat
  duplicates_removed :: nat
  missing_values_handled :: nat
  records_loaded_successfully :: nat

text \<open>\<^verbatim>\<open>df.duplicated().sum()\<close> counts the rows equal, in every column, to an earlier row;
  \<^verbatim>\<open>df.isnull().sum().sum()\<close> counts the missing cells.\<close>

definition build_quality_report :: "frame \<Rightarrow> string \<Rightarrow> quality_report" where
  "build_quality_report df file_name =
     (let cleaned_df =
            (if file_name = ''customers_raw.csv'' \<or> file_name = ''products_raw.csv''
             then drop_duplicates df
             else dropna (drop_duplicates df))
      in \<lparr>file_name_of = file_name,
          records_processed = length (rows df),
          duplicates_removed = length (rows df) - length (rows (drop_duplicates df)),
          missing_values_handled = length (filter isna (concat (values_tolist df))),
          records_loaded_successfully = length (rows cleaned_df)\<rparr>)"

section \<open>Environment, log and storage\<close>

text \<open>
  What the run finds outside the program is a parameter: the CSV files as \<^verbatim>\<open>read_csv\<close>
  parses them, the database (whether the credentials are set, whether the server answers,
  which statements it accepts) and the three library functions. What the run leaves
  behind is the state: the log, the operations attempted on the database in order, and
  the files written.
\<close>

datatype csv_source = Missing | Unreadable | Table frame

datatype db_stmt = CreateTable string | DeleteFrom string | InsertInto string "cell list list"

datatype db_event = Connect | Execute db_stmt | Commit | Close

record env =
  csv_files :: "string \<Rightarrow> csv_source"
  db_credentials :: bool
  db_reachable :: bool
  db_accepts :: "db_stmt \<Rightarrow> bool"
  phonenumbers_parse :: "cell \<Rightarrow> (nat \<times> nat) option"
  phonenumbers_is_valid_number :: "nat \<times> nat \<Rightarrow> bool"
  pd_to_datetime :: "cell \<Rightarrow> date option"
  py_str :: "rat \<Rightarrow> string"

record sys =
  log_records :: "log_entry list"
  db_events :: "db_event list"
  orders_csv :: "frame option"
  order_items_csv :: "frame option"
  data_quality_report_txt :: "quality_report list option"

definition logs :: "log_entry list \<Rightarrow> sys \<Rightarrow> sys" where
  "logs l s = s\<lparr>log_records := log_records s @ l\<rparr>"

definition log_error :: "string \<Rightarrow> sys \<Rightarrow> sys" where
  "log_error msg s = logs [(ERROR, msg)] s"

definition db_do :: "db_event list \<Rightarrow> sys \<Rightarrow> sys" where
  "db_do evs s = s\<lparr>db_events := db_events s @ evs\<rparr>"

subsection \<open>\<^verbatim>\<open>load_csv\<close>\<close>

definition load_csv :: "env \<Rightarrow> string \<Rightarrow> sys \<Rightarrow> frame \<times> sys" where
  "load_csv env file_path s =
     (case csv_files env file_path of
        Missing \<Rightarrow> (empty_frame, log_error ''File not found'' s)
      | Unreadable \<Rightarrow> (empty_frame, log_error ''Error loading file'' s)
      | Table df \<Rightarrow> (df, s))"

subsection \<open>\<^verbatim>\<open>connect_to_db\<close>, \<^verbatim>\<open>initialize_db_tables\<close> and the four loaders\<close>

definition connect_to_db :: "env \<Rightarrow> sys \<Rightarrow> bool \<times> sys" where
  "connect_to_db env s =
     (if \<not> db_credentials env then (False, log_error ''Missing database credentials in .env file.'' s)
      else if db_reachable env then (True, db_do [Connect] s)
      else (False, log_error ''Database connection error'' (db_do [Connect] s)))"

text \<open>Statements run in order; the first one the database refuses raises, and the ones
  after it are not run.\<close>

fun execute_all :: "(db_stmt \<Rightarrow> bool) \<Rightarrow> db_stmt list \<Rightarrow> db_event list \<times> bool" where
  "execute_all accepts [] = ([], True)"
| "execute_all accepts (q # qs) =
     (if accepts q
      then (case execute_all accepts qs of (evs, ok) \<Rightarrow> (Execute q # evs, ok))
      else ([Execute q], False))"

definition initialize_db_tables :: "env \<Rightarrow> sys \<Rightarrow> sys" where
  "initialize_db_tables env s =
     (case execute_all (db_accepts env)
             [CreateTable ''customers'', CreateTable ''products'',
              CreateTable ''orders'', CreateTable ''order_items''] of
        (evs, ok) \<Rightarrow>
          if ok then db_do (evs @ [Commit]) s
          else log_error ''Error creating tables'' (db_do evs s))"

text \<open>The body of each loader after the connection: delete, insert all rows, commit; the
  handler logs; the connection is closed in every case.\<close>

definition delete_and_insert :: "env \<Rightarrow> string \<Rightarrow> db_stmt list \<Rightarrow> sys \<Rightarrow> sys" where
  "delete_and_insert env msg stmts s =
     (case execute_all (db_accepts env) stmts of
        (evs, ok) \<Rightarrow>
          if ok then db_do (evs @ [Commit, Close]) s
          else db_do [Close] (log_error msg (db_do evs s)))"

definition load_data_to_customers_db :: "env \<Rightarrow> frame \<Rightarrow> sys \<Rightarrow> sys" where
  "load_data_to_customers_db env customers_df s =
     (if df_empty customers_df
      then log_error ''Customers DataFrame is empty or None. Aborting load.'' s
      else (case connect_to_db env s of
              (False, s1) \<Rightarrow> log_error ''Failed to establish database connection.'' s1
            | (True, s1) \<Rightarrow>
                delete_and_insert env ''Error loading customers''
                  [DeleteFrom ''order_items'', DeleteFrom ''orders'', DeleteFrom ''customers'',
                   InsertInto ''customers'' (values_tolist customers_df)]
                  (initialize_db_tables env s1)))"

definition load_data_to_products_db :: "env \<Rightarrow> frame \<Rightarrow> sys \<Rightarrow> sys" where
  "load_data_to_products_db env products_df s =
     (if df_empty products_df
      then log_error ''Products DataFrame is empty or None. Aborting load.'' s
      else (case connect_to_db env s of
              (False, s1) \<Rightarrow> log_error ''Failed to establish database connection.'' s1
            | (True, s1) \<Rightarrow>
                delete_and_insert env ''Error loading products''
                  [DeleteFrom ''order_items'', DeleteFrom ''products'',
                   InsertInto ''products'' (values_tolist products_df)] s1))"

definition load_data_to_orders_db :: "env \<Rightarrow> frame \<Rightarrow> sys \<Rightarrow> sys" where
  "load_data_to_orders_db env orders_df s =
     (if df_empty orders_df
      then log_error ''Orders DataFrame is empty or None. Aborting load.'' s
      else (case connect_to_db env s of
              (False, s1) \<Rightarrow> log_error ''Failed to establish database connection.'' s1
            | (True, s1) \<Rightarrow>
                delete_and_insert env ''Error loading orders''
                  [DeleteFrom ''orders'', InsertInto ''orders'' (values_tolist orders_df)] s1))"

definition load_data_to_order_items_db :: "env \<Rightarrow> frame \<Rightarrow> sys \<Rightarrow> sys" where
  "load_data_to_order_items_db env order_items_df s =
     (if df_empty order_items_df
      then log_error ''Order Items DataFrame is empty or None. Aborting load.'' s
      else (case connect_to_db env s of
              (False, s1) \<Rightarrow> log_error ''Failed to establish database connection.'' s1
            | (True, s1) \<Rightarrow>
                delete_and_insert env ''Error loading order items''
                  [DeleteFrom ''order_items'',
                   InsertInto ''order_items'' (values_tolist order_items_df)] s1))"

section \<open>Dataset cleaners\<close>

text \<open>
  A cleaner receives a frame object and first assigns to its columns, which changes the
  object of the caller; from \<^verbatim>\<open>drop_duplicates\<close> on it works on new objects. Each cleaner
  below returns its value, the frame of the caller as the call leaves it, and the state.
  The surrogate keys are assigned one column after the other, so a column that is absent
  raises after the columns before it have been changed.
\<close>

fun strip_ids :: "(rat \<Rightarrow> string) \<Rightarrow> string list \<Rightarrow> frame \<Rightarrow> py_error option \<times> frame" where
  "strip_ids str [] df = (None, df)"
| "strip_ids str (c # cs) df =
     (if c \<notin> set (columns df) then (Some (KeyError c), df)
      else strip_ids str cs (set_col c (\<lambda>i r. strip_id_prefix str (r c)) df))"

text \<open>
  \<^verbatim>\<open>df[c].str.title()\<close> raises AttributeError on a column whose dtype is not object. The
  dtype is the one the column had when the file was read: dropping rows does not change
  it.
\<close>

definition str_title :: "cell \<Rightarrow> cell" where
  "str_title v = (case v of Str s \<Rightarrow> Str (py_title s) | _ \<Rightarrow> NaN)"

definition assign_str_title :: "string \<Rightarrow> bool \<Rightarrow> frame \<Rightarrow> py_error + frame" where
  "assign_str_title c dtype_object df =
     (if c \<notin> set (columns df) then Inl (KeyError c)
      else if \<not> dtype_object then Inl AttributeError
      else Inr (set_col c (\<lambda>i r. str_title (r c)) df))"

subsection \<open>\<^verbatim>\<open>clean_customers\<close>\<close>

text \<open>The steps from \<^verbatim>\<open>drop_duplicates\<close> to the reordered frame. The result is the pair of
  \<^verbatim>\<open>customers_df\<close>, which the code hands to the loader, and of \<^verbatim>\<open>customers\<close>, which it
  returns.\<close>

definition clean_customers_steps :: "env \<Rightarrow> frame \<Rightarrow> (frame \<times> frame) attempt" where
  "clean_customers_steps env df2 =
     then_do (quiet (drop_duplicates_subset [''customer_id''] df2)) (\<lambda>df3.
     then_do (handled (impute_missing_email (py_str env) df3)) (\<lambda>df4.
     then_do (series_apply ''phone''
                (format_phone_number (phonenumbers_parse env) (phonenumbers_is_valid_number env)) df4) (\<lambda>df5.
     then_do (quiet (assign_str_title ''city'' (is_object_col ''city'' df2) df5)) (\<lambda>df6.
     then_do (series_apply ''registration_date'' (normalize_date_format (pd_to_datetime env)) df6) (\<lambda>df7.
     then_do (quiet (getitem_list [''customer_id'', ''first_name'', ''last_name'', ''email'',
                                   ''phone'', ''city'', ''registration_date'']
                       (trim_string_columns df7))) (\<lambda>customers.
     (Inr (trim_string_columns df7, customers), [])))))))"

definition clean_customers :: "env \<Rightarrow> frame \<Rightarrow> sys \<Rightarrow> frame option \<times> frame \<times> sys" where
  "clean_customers env customers_df s =
     (case strip_ids (py_str env) [''customer_id''] customers_df of
        (Some e, df1) \<Rightarrow> (None, df1, log_error ''Error cleaning customers data'' s)
      | (None, df1) \<Rightarrow>
          (let df2 = trim_string_columns df1
           in case clean_customers_steps env df2 of
                (Inl e, l) \<Rightarrow> (None, df2, log_error ''Error cleaning customers data'' (logs l s))
              | (Inr (customers_df, customers), l) \<Rightarrow>
                  (Some customers, df2, load_data_to_customers_db env customers_df (logs l s))))"

subsection \<open>\<^verbatim>\<open>clean_products\<close>\<close>

definition clean_products_steps :: "env \<Rightarrow> frame \<Rightarrow> (frame \<times> frame) attempt" where
  "clean_products_steps env df2 =
     then_do (quiet (drop_duplicates_subset [''product_id''] df2)) (\<lambda>df3.
     then_do (handled (impute_product_data_median df3)) (\<lambda>df4.
     then_do (series_apply ''category'' normalize_category_name df4) (\<lambda>df5.
     then_do (series_apply ''product_name'' (\<lambda>v. (strip_spaces v, [])) df5) (\<lambda>df6.
     then_do (quiet (getitem_list [''product_id'', ''product_name'', ''category'', ''price'',
                                   ''stock_quantity'']
                       (trim_string_columns df6))) (\<lambda>products.
     (Inr (trim_string_columns df6, products), []))))))"

definition clean_products :: "env \<Rightarrow> frame \<Rightarrow> sys \<Rightarrow> frame option \<times> frame \<times> sys" where
  "clean_products env products_df s =
     (case strip_ids (py_str env) [''product_id''] products_df of
        (Some e, df1) \<Rightarrow> (None, df1, log_error ''Error cleaning products data'' s)
      | (None, df1) \<Rightarrow>
          (let df2 = trim_string_columns df1
           in case clean_products_steps env df2 of
                (Inl e, l) \<Rightarrow> (None, df2, log_error ''Error cleaning products data'' (logs l s))
              | (Inr (products_df, products), l) \<Rightarrow>
                  (Some products, df2, load_data_to_products_db env products_df (logs l s))))"

subsection \<open>\<^verbatim>\<open>clean_sales\<close>\<close>

definition clean_sales_steps :: "env \<Rightarrow> frame \<Rightarrow> frame attempt" where
  "clean_sales_steps env df2 =
     then_do (quiet (drop_duplicates_subset [''transaction_id''] df2)) (\<lambda>df3.
     then_do (quiet (dropna_subset ''customer_id'' df3)) (\<lambda>df4.
     then_do (quiet (dropna_subset ''product_id'' df4)) (\<lambda>df5.
     series_apply ''transaction_date'' (normalize_date_format (pd_to_datetime env)) df5)))"

text \<open>On an exception \<^verbatim>\<open>clean_sales\<close> returns \<^verbatim>\<open>pd.DataFrame()\<close>.\<close>

definition clean_sales :: "env \<Rightarrow> frame \<Rightarrow> sys \<Rightarrow> frame \<times> frame \<times> sys" where
  "clean_sales env sales_df s =
     (case strip_ids (py_str env) [''customer_id'', ''product_id'', ''transaction_id''] sales_df of
        (Some e, df1) \<Rightarrow> (empty_frame, df1, log_error ''Error cleaning sales data'' s)
      | (None, df1) \<Rightarrow>
          (let df2 = trim_string_columns df1
           in case clean_sales_steps env df2 of
                (Inl e, l) \<Rightarrow> (empty_frame, df2, log_error ''Error cleaning sales data'' (logs l s))
              | (Inr sales_df, l) \<Rightarrow> (sales_df, df2, logs l s)))"

section \<open>Sales decomposer\<close>

text \<open>
  The product of two columns, cell by cell: a missing operand gives a missing product. On
  a text operand Python raises TypeError (but for a text times a whole number, which it
  repeats; \<^verbatim>\<open>read_csv\<close> gives the quantities and prices of the input files a numeric dtype,
  and the model raises on every text).
\<close>

definition mul_cell :: "cell \<Rightarrow> cell \<Rightarrow> cell" where
  "mul_cell a b = (case (a, b) of (Num x, Num y) \<Rightarrow> Num (x * y) | _ \<Rightarrow> NaN)"

definition series_mul :: "string \<Rightarrow> string \<Rightarrow> frame \<Rightarrow> py_error + (nat \<Rightarrow> row \<Rightarrow> cell)" where
  "series_mul a b df =
     (if a \<notin> set (columns df) then Inl (KeyError a)
      else if b \<notin> set (columns df) then Inl (KeyError b)
      else if list_ex is_Str (column_values a df) \<or> list_ex is_Str (column_values b df)
      then Inl TypeError
      else Inr (\<lambda>i r. mul_cell (r a) (r b)))"

subsection \<open>\<^verbatim>\<open>split_orders\<close>\<close>

definition split_orders_steps :: "frame \<Rightarrow> py_error + frame" where
  "split_orders_steps sales_clean =
     (if ''transaction_id'' \<notin> set (columns sales_clean) then Inl (KeyError ''transaction_id'')
      else (let df = set_col ''order_id'' (\<lambda>i r. r ''transaction_id'') sales_clean
            in case series_mul ''quantity'' ''unit_price'' df of
                 Inl e \<Rightarrow> Inl e
               | Inr total_amount \<Rightarrow>
                   (case getitem_list [''order_id'', ''customer_id'', ''transaction_date'',
                                       ''total_amount'', ''status'']
                           (set_col ''total_amount'' total_amount df) of
                      Inl e \<Rightarrow> Inl e
                    | Inr selected \<Rightarrow>
                        Inr (rename ''transaction_date'' ''order_date'' (drop_duplicates selected)))))"

definition split_orders :: "env \<Rightarrow> frame \<Rightarrow> sys \<Rightarrow> frame \<times> sys" where
  "split_orders env sales_clean s =
     (case split_orders_steps sales_clean of
        Inl e \<Rightarrow> (empty_frame, log_error ''Error splitting sales data'' s)
      | Inr orders \<Rightarrow> (orders, load_data_to_orders_db env orders (s\<lparr>orders_csv := Some orders\<rparr>)))"

subsection \<open>\<^verbatim>\<open>split_sales_to_order_items\<close>\<close>

text \<open>\<^verbatim>\<open>order_items['order_item_id'] = order_items.index + 1\<close>: the index label of each row,
  plus one.\<close>

definition split_sales_to_order_items_steps :: "frame \<Rightarrow> py_error + frame" where
  "split_sales_to_order_items_steps sales_clean =
     (let order_items = set_col ''order_item_id'' (\<lambda>i r. Num (of_nat i + 1)) sales_clean
      in case series_mul ''quantity'' ''unit_price'' order_items of
           Inl e \<Rightarrow> Inl e
         | Inr subtotal \<Rightarrow>
             (case getitem_list [''order_item_id'', ''transaction_id'', ''product_id'',
                                 ''quantity'', ''unit_price'', ''subtotal'']
                     (set_col ''subtotal'' subtotal order_items) of
                Inl e \<Rightarrow> Inl e
              | Inr selected \<Rightarrow> Inr (rename ''transaction_id'' ''order_id'' selected)))"

definition split_sales_to_order_items :: "env \<Rightarrow> frame \<Rightarrow> sys \<Rightarrow> frame \<times> sys" where
  "split_sales_to_order_items env sales_clean s =
     (case split_sales_to_order_items_steps sales_clean of
        Inl e \<Rightarrow> (empty_frame, log_error ''Error splitting sales data'' s)
      | Inr order_items \<Rightarrow>
          (order_items,
           load_data_to_order_items_db env order_items (s\<lparr>order_items_csv := Some order_items\<rparr>)))"

section \<open>Quality report and the run\<close>

definition write_data_quality_report :: "frame \<Rightarrow> frame \<Rightarrow> frame \<Rightarrow> sys \<Rightarrow> sys" where
  "write_data_quality_report customers products sales_raw s =
     s\<lparr>data_quality_report_txt :=
         Some [build_quality_report customers ''customers_raw.csv'',
               build_quality_report products ''products_raw.csv'',
               build_quality_report sales_raw ''sales_raw.csv'']\<rparr>"

text \<open>
  Frame objects live in a store, addressed by their position; a variable of the code holds
  an address. \<^verbatim>\<open>.copy()\<close> puts a new object with the same content into the store.
\<close>

type_synonym store = "frame list"

definition new_object :: "frame \<Rightarrow> store \<Rightarrow> nat \<times> store" where
  "new_object df h = (length h, h @ [df])"

definition copy :: "nat \<Rightarrow> store \<Rightarrow> nat \<times> store" where
  "copy a h = new_object (h ! a) h"

text \<open>\<^verbatim>\<open>extract_raw_data\<close> returns the addresses
  \<^verbatim>\<open>(customers, products, sales, customers_raw, products_raw, sales_raw)\<close>.\<close>

definition extract_raw_data ::
  "env \<Rightarrow> store \<times> sys \<Rightarrow> (nat \<times> nat \<times> nat \<times> nat \<times> nat \<times> nat) \<times> store \<times> sys" where
  "extract_raw_data env hs =
     (case hs of (h0, s0) \<Rightarrow>
      (case load_csv env ''customers_raw.csv'' s0 of (df_c, s1) \<Rightarrow>
      (case new_object df_c h0 of (customers_raw, h1) \<Rightarrow>
      (case copy customers_raw h1 of (customers, h2) \<Rightarrow>
      (case load_csv env ''products_raw.csv'' s1 of (df_p, s2) \<Rightarrow>
      (case new_object df_p h2 of (products_raw, h3) \<Rightarrow>
      (case copy products_raw h3 of (products, h4) \<Rightarrow>
      (case load_csv env ''sales_raw.csv'' s2 of (df_s, s3) \<Rightarrow>
      (case new_object df_s h4 of (sales_raw, h5) \<Rightarrow>
      (case copy sales_raw h5 of (sales, h6) \<Rightarrow>
        ((customers, products, sales, customers_raw, products_raw, sales_raw), h6, s3)))))))))))"

text \<open>\<^verbatim>\<open>main\<close>: the cleaners change the objects they are given in place; the values they
  return are new objects, of which only \<^verbatim>\<open>sales_clean\<close> is used, and the two splitters
  copy it before they assign.\<close>

definition main :: "env \<Rightarrow> sys \<Rightarrow> store \<times> sys" where
  "main env s0 =
     (case extract_raw_data env ([], s0) of
        ((customers, products, sales, customers_raw, products_raw, sales_raw), h, s1) \<Rightarrow>
      (case clean_customers env (h ! customers) s1 of (r1, customers_after, s2) \<Rightarrow>
      (case clean_products env (h[customers := customers_after] ! products) s2 of
         (r2, products_after, s3) \<Rightarrow>
      (case clean_sales env (h[customers := customers_after, products := products_after] ! sales) s3 of
         (sales_clean, sales_after, s4) \<Rightarrow>
      (let h' = h[customers := customers_after, products := products_after, sales := sales_after];
           s5 = snd (split_orders env sales_clean s4);
           s6 = snd (split_sales_to_order_items env sales_clean s5)
       in (h', write_data_quality_report (h' ! customers_raw) (h' ! products_raw) (h' ! sales_raw) s6))))))"

section \<open>Example inputs\<close>

text \<open>The frame \<^verbatim>\<open>read_csv\<close> builds from a header and the parsed lines below it: the rows are
  labelled from 0.\<close>

definition row_of :: "(string \<times> cell) list \<Rightarrow> row" where
  "row_of kvs = (\<lambda>c. case map_of kvs c of Some v \<Rightarrow> v | None \<Rightarrow> NaN)"

definition csv_frame :: "string list \<Rightarrow> cell list list \<Rightarrow> frame" where
  "csv_frame header lines =
     \<lparr>columns = header, rows = map (\<lambda>(i, vs). (i, row_of (zip header vs))) (enumerate 0 lines)\<rparr>"

text \<open>The cells of a frame, row by row, with the labels.\<close>

definition table :: "frame \<Rightarrow> (nat \<times> cell list) list" where
  "table df = map (\<lambda>(i, r). (i, map r (columns df))) (rows df)"

definition sales_header :: "string list" where
  "sales_header = [''transaction_id'', ''customer_id'', ''product_id'', ''quantity'',
                   ''unit_price'', ''transaction_date'', ''status'']"

text \<open>Five sales lines: the first has no customer, the third repeats the transaction of the
  second, the fourth has no product; the second has no status.\<close>

definition example_sales :: frame where
  "example_sales = csv_frame sales_header
     [[Str ''T001'', NaN, Str ''P001'', Num 2, Num 10, Str ''2024-01-15'', Str ''Completed''],
      [Str ''T002'', Str ''C001'', Str ''P002'', Num 3, Num 5, Str ''15/01/2024'', NaN],
      [Str ''T002'', Str ''C002'', Str ''P003'', Num 1, Num 7, Str ''2024-01-16'', Str ''Completed''],
      [Str ''T003'', Str ''C002'', NaN, Num 1, Num 7, Str ''2024-01-17'', Str ''Completed''],
      [Str ''T004'', Str ''C003'', Str ''P001'', Num 1, Num 20, Str ''01-20-2024'', Str ''Completed'']]"

definition customers_header :: "string list" where
  "customers_header = [''customer_id'', ''first_name'', ''last_name'', ''email'', ''phone'',
                       ''city'', ''registration_date'']"

text \<open>Three customer lines: the second repeats the identifier of the first with other
  cells, the third has no email.\<close>

definition example_customers :: frame where
  "example_customers = csv_frame customers_header
     [[Str ''C001'', Str ''Asha'', Str ''Rao'', Str ''asha@x.in'', Str ''9876543210'', Str ''pune'',
       Str ''2023-01-15''],
      [Str ''C001'', Str ''Asha'', Str ''Iyer'', Str ''iyer@x.in'', Str ''9876543210'', Str ''pune'',
       Str ''2023-01-15''],
      [Str ''C002'', Str ''Ravi'', Str ''Das'', NaN, NaN, Str ''new delhi'', Str ''15/03/2023'']]"

definition products_header :: "string list" where
  "products_header = [''product_id'', ''product_name'', ''category'', ''price'', ''stock_quantity'']"

text \<open>Four product lines: the second repeats the first; after it is dropped the prices are
  10, missing, 30.\<close>

definition example_products :: frame where
  "example_products = csv_frame products_header
     [[Str ''P001'', Str '' Phone'', Str ''Electronic Gadgets'', Num 10, Num 5],
      [Str ''P001'', Str '' Phone'', Str ''Electronic Gadgets'', Num 10, Num 5],
      [Str ''P002'', Str ''Shirt'', Str ''FASHION'', NaN, NaN],
      [Str ''P003'', Str ''Rice'', Str ''  grocery  '', Num 30, Num 8]]"

text \<open>An environment with the three files, a database that answers and accepts every
  statement, a phone library that rejects every number and a general date parser that
  finds nothing; and the state before the run.\<close>

definition example_env :: env where
  "example_env =
     \<lparr>csv_files = (\<lambda>f. if f = ''customers_raw.csv'' then Table example_customers
                         else if f = ''products_raw.csv'' then Table example_products
                         else if f = ''sales_raw.csv'' then Table example_sales
                         else Missing),
      db_credentials = True,
      db_reachable = True,
      db_accepts = (\<lambda>q. True),
      phonenumbers_parse = (\<lambda>v. None),
      phonenumbers_is_valid_number = (\<lambda>p. False),
      pd_to_datetime = (\<lambda>v. None),
      py_str = (\<lambda>x. [])\<rparr>"

definition initial_sys :: sys where
  "initial_sys = \<lparr>log_records = [], db_events = [], orders_csv = None, order_items_csv = None,
                   data_quality_report_txt = None\<rparr>"

section \<open>Properties of the field normalisers\<close>

lemmas str_defs = py_strip_def py_lower_def py_title_def lower_char_def upper_char_def iscased_def
  isspace_def ascii_uppercase_def ascii_lowercase_def


text \<open>The containment test of the code is the contiguous-sublist relation of the library.\<close>

lemma py_in_sublist: "py_in sub s = sublist sub s"
  by (induction s) (auto simp: sublist_Cons_right)

text \<open>Lower case and trimming commute: a letter is no white space in either case.\<close>

lemma isspace_lower_char: "isspace (lower_char c) = isspace c"
  by (auto simp: lower_char_def isspace_def ascii_uppercase_def ascii_lowercase_def
           split: option.splits if_splits)

lemma dropWhile_isspace_lower:
  "dropWhile isspace (map lower_char s) = map lower_char (dropWhile isspace s)"
  by (induction s) (simp_all add: isspace_lower_char)

lemma py_strip_lower: "py_strip (py_lower s) = py_lower (py_strip s)"
  by (simp add: py_strip_def py_lower_def dropWhile_isspace_lower rev_map)

text \<open>
  Claim C6. \<^verbatim>\<open>normalize_category_name\<close> maps a missing value to a missing value. A text is
  put in lower case and trimmed; the result is \<^verbatim>\<open>Electronics\<close> if that contains
  \<^verbatim>\<open>electronic\<close>, else \<^verbatim>\<open>Fashion\<close> if it contains \<^verbatim>\<open>fashion\<close>, else \<^verbatim>\<open>Groceries\<close> if it
  contains \<^verbatim>\<open>grocer\<close>, else its title case. The three examples of the specification
  follow.
\<close>

theorem normalize_category_name_spec:
  "fst (normalize_category_name NaN) = NaN
   \<and> (\<forall>raw. fst (normalize_category_name (Str raw)) =
         (let v = py_strip (py_lower raw)
          in if sublist ''electronic'' v then Str ''Electronics''
             else if sublist ''fashion'' v then Str ''Fashion''
             else if sublist ''grocer'' v then Str ''Groceries''
             else Str (py_title v)))
   \<and> fst (normalize_category_name (Str ''Electronic Gadgets'')) = Str ''Electronics''
   \<and> fst (normalize_category_name (Str ''  grocery  '')) = Str ''Groceries''
   \<and> fst (normalize_category_name (Str ''Home Decor'')) = Str ''Home Decor''"
proof -
  have null: "fst (normalize_category_name NaN) = NaN"
    by (simp add: normalize_category_name_def)
  have general: "fst (normalize_category_name (Str raw)) =
         (let v = py_strip (py_lower raw)
          in if sublist ''electronic'' v then Str ''Electronics''
             else if sublist ''fashion'' v then Str ''Fashion''
             else if sublist ''grocer'' v then Str ''Groceries''
             else Str (py_title v))" for raw
    by (simp add: normalize_category_name_def Let_def py_strip_lower py_in_sublist[symmetric])
  have e1: "fst (normalize_category_name (Str ''Electronic Gadgets'')) = Str ''Electronics''"
    by (simp add: normalize_category_name_def str_defs)
  have e2: "fst (normalize_category_name (Str ''  grocery  '')) = Str ''Groceries''"
    by (simp add: normalize_category_name_def str_defs)
  have e3: "fst (normalize_category_name (Str ''Home Decor'')) = Str ''Home Decor''"
    by (simp add: normalize_category_name_def str_defs)
  from null general e1 e2 e3 show ?thesis by blast
qed

theorem normalize_category_name_spec_witness:
  "fst (normalize_category_name (Str ''FASHION & more'')) = Str ''Fashion''"
proof -
  have "sublist ''fashion'' (py_strip (py_lower ''FASHION & more''))"
    by (simp add: py_in_sublist[symmetric] str_defs)
  moreover have "\<not> sublist ''electronic'' (py_strip (py_lower ''FASHION & more''))"
    by (simp add: py_in_sublist[symmetric] str_defs)
  ultimately show ?thesis
    using normalize_category_name_spec by (simp add: Let_def)
qed

















end
